theory Spec2Isabelle
  imports Complex_Main "HOL-Library.AList"
begin

section \<open>Numbers and their decimal text\<close>

text \<open>
  Seconds and percentages arrive as JSON numbers. They are modelled as exact rationals:
  the rounding error of binary floating point is outside this development. Python's
  \<^verbatim>\<open>int(x)\<close> truncates towards zero, \<^verbatim>\<open>x // 60\<close> is the floor of the quotient, and
  \<^verbatim>\<open>//\<close>, \<^verbatim>\<open>%\<close> on integers with a positive divisor agree with \<open>div\<close> and \<open>mod\<close>.
\<close>

fun str_nat :: "nat \<Rightarrow> string" where
  "str_nat n =
     (if n < 10 then [char_of (48 + n)]
      else str_nat (n div 10) @ [char_of (48 + n mod 10)])"

declare str_nat.simps [simp del]

definition str_int :: "int \<Rightarrow> string" where
  "str_int i = (if i < 0 then CHR ''-'' # str_nat (nat (- i)) else str_nat (nat i))"

definition py_int :: "rat \<Rightarrow> int" where
  "py_int x = (if x < 0 then \<lceil>x\<rceil> else \<lfloor>x\<rfloor>)"

section \<open>The client's formatting helper\<close>

text \<open>\<^verbatim>\<open>WakaTimeClient.format_seconds\<close> (wakatime_client.py), branch for branch.\<close>

definition format_seconds :: "rat \<Rightarrow> string" where
  "format_seconds seconds =
     (if seconds < 60 then str_int (py_int seconds) @ '' secs''
      else let minutes = \<lfloor>seconds / 60\<rfloor> in
        if minutes < 60 then str_int minutes @ '' mins''
        else let hours = minutes div 60; remaining_mins = minutes mod 60 in
          if hours < 24 then
            (if remaining_mins = 0 then str_int hours @ '' hrs''
             else str_int hours @ '' hrs '' @ str_int remaining_mins @ '' mins'')
          else let days = hours div 24; remaining_hours = hours mod 24 in
            if remaining_hours = 0 then str_int days @ '' days''
            else str_int days @ '' days '' @ str_int remaining_hours @ '' hrs'')"

text \<open>
  Python's \<^verbatim>\<open>round(x, 1)\<close>: the nearest multiple of one tenth, a tie going to the even
  neighbour.
\<close>

definition round1 :: "rat \<Rightarrow> rat" where
  "round1 x =
     (let y = x * 10; f = \<lfloor>y\<rfloor>; d = y - of_int f
      in of_int (if d < 1 / 2 then f else if 1 / 2 < d then f + 1
                 else if even f then f else f + 1) / 10)"

section \<open>Values on the wire and values returned by the tools\<close>

text \<open>
  \<open>json\<close> is what \<^verbatim>\<open>response.json()\<close> yields. \<open>pyval\<close> is what a tool returns: the dict
  literals of server.py, their keys in the order the code inserts them.
\<close>

datatype json =
    JNull | JBool bool | JInt int | JFloat rat | JStr string
  | JArr "json list" | JObj "(string \<times> json) list"

datatype pyval =
    VNone | VNum rat | VStr string | VList "pyval list" | VDict "(string \<times> pyval) list"

text \<open>
  The exception classes of wakatime_client.py, each with its message; \<open>OtherException\<close>
  is any exception raised by the interpreter or a library, with the text of \<^verbatim>\<open>str(e)\<close>.
\<close>

datatype error =
    WakaTimeError string
  | WakaTimeAuthError string
  | WakaTimeRateLimitError string
  | WakaTimeNotReadyError string
  | OtherException string

fun type_name :: "json \<Rightarrow> string" where
  "type_name JNull = ''NoneType''"
| "type_name (JBool _) = ''bool''"
| "type_name (JInt _) = ''int''"
| "type_name (JFloat _) = ''float''"
| "type_name (JStr _) = ''str''"
| "type_name (JArr _) = ''list''"
| "type_name (JObj _) = ''dict''"

text \<open>\<^verbatim>\<open>d.get(key, default)\<close>: only a dict has it.\<close>

fun dict_get :: "json \<Rightarrow> string \<Rightarrow> json \<Rightarrow> error + json" where
  "dict_get (JObj kvs) key dflt =
     Inr (case map_of kvs key of None \<Rightarrow> dflt | Some v \<Rightarrow> v)"
| "dict_get v key dflt =
     Inl (OtherException ([CHR 0x27] @ type_name v @ [CHR 0x27] @ '' object has no attribute ''
            @ [CHR 0x27] @ ''get'' @ [CHR 0x27]))"

fun truthy :: "json \<Rightarrow> bool" where
  "truthy JNull = False"
| "truthy (JBool b) = b"
| "truthy (JInt i) = (i \<noteq> 0)"
| "truthy (JFloat r) = (r \<noteq> 0)"
| "truthy (JStr s) = (s \<noteq> [])"
| "truthy (JArr xs) = (xs \<noteq> [])"
| "truthy (JObj kvs) = (kvs \<noteq> [])"

section \<open>The upstream payloads read by the tools\<close>

text \<open>
  The tools read each day of a summaries response and the stats object field by field
  with \<^verbatim>\<open>.get\<close>. These records are those reads: a field is \<open>None\<close> when the key is
  absent, and otherwise has the type the upstream schema gives it.
\<close>

record entry =
  e_name :: "string option"
  e_text :: "string option"
  e_percent :: "rat option"
  e_total_seconds :: "rat option"

record grand_total =
  gt_text :: "string option"
  gt_total_seconds :: "rat option"

record day_range =
  r_date :: "string option"

record day_summary =
  ds_grand_total :: "grand_total option"
  ds_range :: "day_range option"
  ds_projects :: "entry list option"
  ds_languages :: "entry list option"
  ds_editors :: "entry list option"
  ds_categories :: "entry list option"

text \<open>
  \<open>s_best_day\<close> is \<open>None\<close> when the key is absent or holds an empty dict: the code tests
  it with \<^verbatim>\<open>if best_day:\<close>, false for both.
\<close>

record best_day =
  bd_date :: "string option"
  bd_text :: "string option"
  bd_total_seconds :: "rat option"

record stats =
  s_human_readable_range :: "string option"
  s_human_readable_total :: "string option"
  s_total_seconds :: "rat option"
  s_human_readable_daily_average :: "string option"
  s_days_including_holidays :: "rat option"
  s_days_minus_holidays :: "rat option"
  s_best_day :: "best_day option"
  s_languages :: "entry list option"
  s_projects :: "entry list option"
  s_editors :: "entry list option"
  s_operating_systems :: "entry list option"
  s_categories :: "entry list option"

section \<open>The process and its surroundings\<close>

text \<open>
  A calendar date is its proleptic Gregorian ordinal (\<^verbatim>\<open>date.toordinal()\<close>): comparison
  and subtraction of dates are those of the ordinals, and \<^verbatim>\<open>timedelta(days=1)\<close> is 1.
\<close>

type_synonym date = int

record http_request =
  http_method :: string
  url :: string
  headers :: "(string \<times> string) list"
  params :: "(string \<times> string) list option"

text \<open>\<open>json\<close> of a response is \<open>Inl\<close> (the decoder's message) when the body is not JSON.\<close>

record response =
  status_code :: int
  json :: "string + json"
  resp_text :: string

text \<open>
  What the code takes from outside itself: the environment variables, the clock, the
  network (\<open>Inl\<close> is the text of the exception httpx raised), the standard library's
  base64, date parsing and date printing, Python's text for a float or a container in an
  f-string, and the reading of a JSON value as a payload record.
\<close>

record sys =
  environ :: "string \<Rightarrow> string option"
  today :: date
  http :: "http_request \<Rightarrow> string + response"
  b64encode :: "string \<Rightarrow> string"
  fromisoformat :: "string \<Rightarrow> date option"
  isoformat :: "date \<Rightarrow> string"
  strftime_ymd :: "date \<Rightarrow> string"
  repr_json :: "json \<Rightarrow> string"
  as_day :: "json \<Rightarrow> day_summary"
  as_stats :: "json \<Rightarrow> stats"

record client =
  base_url :: string
  timeout :: rat
  api_key :: string

text \<open>The mutable state: the module's \<^verbatim>\<open>_client\<close> and the requests sent so far.\<close>

record world =
  client_slot :: "client option"
  sent :: "http_request list"

section \<open>The client (wakatime_client.py)\<close>

definition auth_missing_message :: string where
  "auth_missing_message =
     ''WAKATIME_API_KEY environment variable not set. '' @
     ''Get your API key from https://wakatime.com/settings/api-key''"

text \<open>
  \<^verbatim>\<open>WakaTimeClient.__init__\<close>. The environment is consulted only when no key is passed;
  \<^verbatim>\<open>not api_key\<close> holds for \<^verbatim>\<open>None\<close> and for the empty string.
\<close>

definition WakaTimeClient_init ::
  "sys \<Rightarrow> string option \<Rightarrow> string \<Rightarrow> rat \<Rightarrow> error + client" where
  "WakaTimeClient_init X key burl tmo =
     (let key' = (case key of None \<Rightarrow> environ X ''WAKATIME_API_KEY'' | Some k \<Rightarrow> Some k)
      in case key' of
           None \<Rightarrow> Inl (WakaTimeAuthError auth_missing_message)
         | Some k \<Rightarrow>
             if k = [] then Inl (WakaTimeAuthError auth_missing_message)
             else Inr \<lparr>base_url = burl, timeout = tmo, api_key = k\<rparr>)"

definition get_auth_header :: "sys \<Rightarrow> client \<Rightarrow> (string \<times> string) list" where
  "get_auth_header X self = [(''Authorization'', ''Basic '' @ b64encode X (api_key self))]"

text \<open>A value inside an f-string: \<^verbatim>\<open>str\<close> of it.\<close>

definition py_str :: "sys \<Rightarrow> json \<Rightarrow> string" where
  "py_str X v =
     (case v of
        JStr s \<Rightarrow> s
      | JInt i \<Rightarrow> str_int i
      | JBool b \<Rightarrow> (if b then ''True'' else ''False'')
      | JNull \<Rightarrow> ''None''
      | _ \<Rightarrow> repr_json X v)"

definition rate_limit_message :: string where
  "rate_limit_message =
     ''Rate limit exceeded. WakaTime allows ~10 requests/second. '' @
     ''Please wait a moment before trying again.''"

text \<open>
  \<^verbatim>\<open>WakaTimeClient._request\<close>: one request is sent, then the status code is tested in
  the order of the code. \<^verbatim>\<open>response.json()\<close> and \<^verbatim>\<open>.get\<close> raise where Python raises.
\<close>

definition request ::
  "sys \<Rightarrow> client \<Rightarrow> string \<Rightarrow> string \<Rightarrow> (string \<times> string) list option \<Rightarrow> world
     \<Rightarrow> (error + json) \<times> world" where
  "request X self meth endpoint ps w =
     (let req = \<lparr>http_method = meth, url = base_url self @ endpoint,
                 headers = get_auth_header X self, params = ps\<rparr>;
          w' = w\<lparr>sent := sent w @ [req]\<rparr>
      in case http X req of
           Inl t \<Rightarrow> (Inl (OtherException t), w')
         | Inr r \<Rightarrow>
            (if status_code r = 401 then Inl (WakaTimeAuthError ''Invalid API key'')
             else if status_code r = 202 then
               (case json r of
                  Inl t \<Rightarrow> Inl (OtherException t)
                | Inr data \<Rightarrow>
                   (case dict_get data ''data'' (JObj []) of
                      Inl e \<Rightarrow> Inl e
                    | Inr d \<Rightarrow>
                       (case dict_get d ''percent_calculated'' (JInt 0) of
                          Inl e \<Rightarrow> Inl e
                        | Inr percent \<Rightarrow>
                            Inl (WakaTimeNotReadyError
                                  (''Stats are still being computed ('' @ py_str X percent @
                                   ''% complete). Try again in a few seconds.'')))))
             else if status_code r = 429 then Inl (WakaTimeRateLimitError rate_limit_message)
             else if 400 \<le> status_code r then
               (case json r of
                  Inl t \<Rightarrow> Inl (OtherException t)
                | Inr body \<Rightarrow>
                   (case dict_get body ''error'' (JStr (resp_text r)) of
                      Inl e \<Rightarrow> Inl e
                    | Inr error_msg \<Rightarrow>
                        Inl (WakaTimeError
                              (''API error ('' @ str_int (status_code r) @ ''): '' @
                               py_str X error_msg))))
             else
               (case json r of
                  Inl t \<Rightarrow> Inl (OtherException t)
                | Inr body \<Rightarrow> Inr body),
             w'))"

definition get ::
  "sys \<Rightarrow> client \<Rightarrow> string \<Rightarrow> (string \<times> string) list option \<Rightarrow> world
     \<Rightarrow> (error + json) \<times> world" where
  "get X self endpoint ps w = request X self ''GET'' endpoint ps w"

definition get_date_string :: "sys \<Rightarrow> date option \<Rightarrow> string" where
  "get_date_string X d = strftime_ymd X (case d of None \<Rightarrow> today X | Some d' \<Rightarrow> d')"

definition get_stats :: "sys \<Rightarrow> client \<Rightarrow> string \<Rightarrow> world \<Rightarrow> (error + json) \<times> world" where
  "get_stats X self rng w =
     (case get X self (''/users/current/stats/'' @ rng) None w of
        (Inl e, w') \<Rightarrow> (Inl e, w')
      | (Inr resp, w') \<Rightarrow> (dict_get resp ''data'' (JObj []), w'))"

definition get_summaries ::
  "sys \<Rightarrow> client \<Rightarrow> date option \<Rightarrow> date option \<Rightarrow> string option \<Rightarrow> world
     \<Rightarrow> (error + json) \<times> world" where
  "get_summaries X self start end project w =
     (let start' = (case start of None \<Rightarrow> today X | Some d \<Rightarrow> d);
          end' = (case end of None \<Rightarrow> start' | Some d \<Rightarrow> d);
          ps = [(''start'', get_date_string X (Some start')),
                (''end'', get_date_string X (Some end'))]
               @ (case project of None \<Rightarrow> [] | Some p \<Rightarrow> if p = [] then [] else [(''project'', p)])
      in get X self ''/users/current/summaries'' (Some ps) w)"

section \<open>The tools (server.py)\<close>

definition get_client :: "sys \<Rightarrow> world \<Rightarrow> (error + client) \<times> world" where
  "get_client X w =
     (case client_slot w of
        Some c \<Rightarrow> (Inr c, w)
      | None \<Rightarrow>
         (case WakaTimeClient_init X None ''https://api.wakatime.com/api/v1'' 30 of
            Inl e \<Rightarrow> (Inl e, w)
          | Inr c \<Rightarrow> (Inr c, w\<lparr>client_slot := Some c\<rparr>)))"

definition format_error :: "error \<Rightarrow> pyval" where
  "format_error e =
     (case e of
        WakaTimeAuthError m \<Rightarrow>
          VDict [(''error'', VStr ''Authentication failed''), (''message'', VStr m),
                 (''help'', VStr (''Set WAKATIME_API_KEY environment variable with your API key '' @
                                  ''from https://wakatime.com/settings/api-key''))]
      | WakaTimeRateLimitError m \<Rightarrow>
          VDict [(''error'', VStr ''Rate limit exceeded''), (''message'', VStr m),
                 (''help'', VStr ''WakaTime allows ~10 requests/second. Wait a moment and try again.'')]
      | WakaTimeNotReadyError m \<Rightarrow>
          VDict [(''error'', VStr ''Stats computing''), (''message'', VStr m),
                 (''help'', VStr (''WakaTime is still calculating your stats. '' @
                                  ''Try again in a few seconds.''))]
      | WakaTimeError m \<Rightarrow> VDict [(''error'', VStr ''API error''), (''message'', VStr m)]
      | OtherException m \<Rightarrow> VDict [(''error'', VStr ''API error''), (''message'', VStr m)])"

text \<open>\<^verbatim>\<open>x.get(key, default)\<close> on a payload record.\<close>

definition get_or :: "'a \<Rightarrow> 'a option \<Rightarrow> 'a" where
  "get_or d x = (case x of None \<Rightarrow> d | Some v \<Rightarrow> v)"

definition opt_str :: "string option \<Rightarrow> pyval" where
  "opt_str x = (case x of None \<Rightarrow> VNone | Some v \<Rightarrow> VStr v)"

text \<open>
  The two dict literals of the list comprehensions in \<^verbatim>\<open>get_coding_stats\<close> and in the
  single-day branch of \<^verbatim>\<open>get_summary\<close>: with and without \<^verbatim>\<open>total_seconds\<close>.
\<close>

definition item4 :: "entry \<Rightarrow> pyval" where
  "item4 x =
     VDict [(''name'', opt_str (e_name x)),
            (''time'', VStr (get_or [] (e_text x))),
            (''percent'', VNum (round1 (get_or 0 (e_percent x)))),
            (''total_seconds'', VNum (get_or 0 (e_total_seconds x)))]"

definition item3 :: "entry \<Rightarrow> pyval" where
  "item3 x =
     VDict [(''name'', opt_str (e_name x)),
            (''time'', VStr (get_or [] (e_text x))),
            (''percent'', VNum (round1 (get_or 0 (e_percent x))))]"

definition get_coding_stats :: "sys \<Rightarrow> string \<Rightarrow> world \<Rightarrow> pyval \<times> world" where
  "get_coding_stats X rng w =
     (case get_client X w of
        (Inl e, w1) \<Rightarrow> (format_error e, w1)
      | (Inr client, w1) \<Rightarrow>
         (case get_stats X client rng w1 of
            (Inl e, w2) \<Rightarrow> (format_error e, w2)
          | (Inr data, w2) \<Rightarrow>
             (let st = as_stats X data in
              (VDict
                ([(''range'', VStr (get_or rng (s_human_readable_range st))),
                  (''total_time'', VStr (get_or ''0 mins'' (s_human_readable_total st))),
                  (''total_seconds'', VNum (get_or 0 (s_total_seconds st))),
                  (''daily_average'', VStr (get_or ''0 mins'' (s_human_readable_daily_average st))),
                  (''days_including_holidays'', VNum (get_or 0 (s_days_including_holidays st))),
                  (''days_minus_holidays'', VNum (get_or 0 (s_days_minus_holidays st)))]
                 @ (case s_best_day st of
                      None \<Rightarrow> []
                    | Some b \<Rightarrow>
                        [(''best_day'',
                          VDict [(''date'', opt_str (bd_date b)),
                                 (''time'', VStr (get_or [] (bd_text b))),
                                 (''total_seconds'', VNum (get_or 0 (bd_total_seconds b)))])])
                 @ [(''languages'', VList (map item4 (take 10 (get_or [] (s_languages st))))),
                    (''projects'', VList (map item4 (take 10 (get_or [] (s_projects st))))),
                    (''editors'', VList (map item3 (take 5 (get_or [] (s_editors st))))),
                    (''operating_systems'',
                       VList (map item3 (take 5 (get_or [] (s_operating_systems st))))),
                    (''categories'', VList (map item3 (take 5 (get_or [] (s_categories st)))))]),
               w2))))"

definition parse_date :: "sys \<Rightarrow> string option \<Rightarrow> date option" where
  "parse_date X date_str =
     (case date_str of
        None \<Rightarrow> None
      | Some s \<Rightarrow> if s = [] then None else fromisoformat X s)"

text \<open>
  The multi-day branch of \<^verbatim>\<open>get_summary\<close>. A totals dict is an association list in
  insertion order, which is the order \<^verbatim>\<open>totals.items()\<close> yields; \<open>AList.update\<close> replaces
  the value of a key in place and appends a new key. \<open>accumulate\<close> is one inner
  \<^verbatim>\<open>for\<close> loop, \<open>aggregate_day\<close> the body of the loop over the days.
\<close>

fun accumulate :: "(string \<times> rat) list \<Rightarrow> entry list \<Rightarrow> (string \<times> rat) list" where
  "accumulate totals [] = totals"
| "accumulate totals (x # xs) =
     (let name = get_or ''Unknown'' (e_name x)
      in accumulate
           (AList.update name
              (get_or 0 (map_of totals name) + get_or 0 (e_total_seconds x)) totals) xs)"

record agg =
  total_seconds :: rat
  project_totals :: "(string \<times> rat) list"
  language_totals :: "(string \<times> rat) list"
  editor_totals :: "(string \<times> rat) list"
  category_totals :: "(string \<times> rat) list"

definition aggregate_day :: "agg \<Rightarrow> day_summary \<Rightarrow> agg" where
  "aggregate_day a day_summary =
     \<lparr>total_seconds =
        total_seconds a
          + get_or 0 (gt_total_seconds
              (get_or \<lparr>gt_text = None, gt_total_seconds = None\<rparr> (ds_grand_total day_summary))),
      project_totals = accumulate (project_totals a) (get_or [] (ds_projects day_summary)),
      language_totals = accumulate (language_totals a) (get_or [] (ds_languages day_summary)),
      editor_totals = accumulate (editor_totals a) (get_or [] (ds_editors day_summary)),
      category_totals = accumulate (category_totals a) (get_or [] (ds_categories day_summary))\<rparr>"

definition aggregate :: "day_summary list \<Rightarrow> agg" where
  "aggregate summaries =
     foldl aggregate_day
       \<lparr>total_seconds = 0, project_totals = [], language_totals = [],
        editor_totals = [], category_totals = []\<rparr> summaries"

text \<open>
  \<^verbatim>\<open>sorted(totals.items(), key=lambda x: x[1], reverse=True)[:limit]\<close>: Python's sort is
  stable also with \<^verbatim>\<open>reverse=True\<close>, as is \<open>sort_key\<close> on the negated seconds.
\<close>

definition format_breakdown :: "rat \<Rightarrow> (string \<times> rat) list \<Rightarrow> nat \<Rightarrow> pyval list" where
  "format_breakdown tot totals limit =
     (let sorted_items = take limit (sort_key (\<lambda>x. - snd x) totals)
      in map (\<lambda>(name, secs).
                VDict [(''name'', VStr name),
                       (''time'', VStr (format_seconds secs)),
                       (''percent'', VNum (if 0 < tot then round1 ((secs / tot) * 100) else 0)),
                       (''total_seconds'', VNum secs)])
             sorted_items)"

text \<open>
  \<^verbatim>\<open>summaries\<close> is whatever the response holds under \<^verbatim>\<open>data\<close>. A list is read day by
  day; on anything else that is not falsy Python raises, in the loop of the multi-day
  branch or at \<^verbatim>\<open>summaries[0]\<close> of the single-day branch, with these messages.
\<close>

definition quoted :: "string \<Rightarrow> string" where
  "quoted s = [CHR 0x27] @ s @ [CHR 0x27]"

fun loop_failure :: "json \<Rightarrow> string" where
  "loop_failure (JStr _) = quoted ''str'' @ '' object has no attribute '' @ quoted ''get''"
| "loop_failure (JObj _) = quoted ''str'' @ '' object has no attribute '' @ quoted ''get''"
| "loop_failure v = quoted (type_name v) @ '' object is not iterable''"

fun index_failure :: "json \<Rightarrow> string" where
  "index_failure (JStr _) = quoted ''str'' @ '' object has no attribute '' @ quoted ''get''"
| "index_failure (JObj _) = ''0''"
| "index_failure v = quoted (type_name v) @ '' object is not subscriptable''"

definition project_filter :: "string option \<Rightarrow> (string \<times> pyval) list" where
  "project_filter project =
     (case project of
        None \<Rightarrow> []
      | Some p \<Rightarrow> if p = [] then [] else [(''project_filter'', VStr p)])"

definition get_summary ::
  "sys \<Rightarrow> string option \<Rightarrow> string option \<Rightarrow> string option \<Rightarrow> world \<Rightarrow> pyval \<times> world" where
  "get_summary X start_date end_date project w =
     (case get_client X w of
        (Inl e, w1) \<Rightarrow> (format_error e, w1)
      | (Inr client, w1) \<Rightarrow>
         (let yesterday = today X - 1;
              start = get_or yesterday (parse_date X start_date);
              end = get_or (today X) (parse_date X end_date)
          in if end < start then
               (VDict [(''error'', VStr ''Invalid date range''),
                       (''message'', VStr ''end_date cannot be before start_date'')], w1)
             else
              (case get_summaries X client (Some start) (Some end) project w1 of
                 (Inl e, w2) \<Rightarrow> (format_error e, w2)
               | (Inr resp, w2) \<Rightarrow>
                  (case dict_get resp ''data'' (JArr []) of
                     Inl e \<Rightarrow> (format_error e, w2)
                   | Inr summaries \<Rightarrow>
                      if \<not> truthy summaries then
                        (VDict [(''start_date'', VStr (isoformat X start)),
                                (''end_date'', VStr (isoformat X end)),
                                (''total_time'', VStr ''0 mins''),
                                (''total_seconds'', VNum 0),
                                (''message'', VStr ''No coding activity recorded for this period.'')],
                         w2)
                      else if start \<noteq> end then
                        (case summaries of
                           JArr days \<Rightarrow>
                            (let a = aggregate (map (as_day X) days);
                                 num_days = (end - start) + 1
                             in (VDict
                                  ([(''start_date'', VStr (isoformat X start)),
                                    (''end_date'', VStr (isoformat X end)),
                                    (''num_days'', VNum (of_int num_days)),
                                    (''total_time'', VStr (format_seconds (total_seconds a))),
                                    (''total_seconds'', VNum (total_seconds a)),
                                    (''daily_average'',
                                       VStr (if 0 < num_days
                                             then format_seconds (total_seconds a / of_int num_days)
                                             else ''0 mins'')),
                                    (''projects'',
                                       VList (format_breakdown (total_seconds a) (project_totals a) 10)),
                                    (''languages'',
                                       VList (format_breakdown (total_seconds a) (language_totals a) 10)),
                                    (''editors'',
                                       VList (format_breakdown (total_seconds a) (editor_totals a) 5)),
                                    (''categories'',
                                       VList (format_breakdown (total_seconds a) (category_totals a) 5))]
                                   @ project_filter project),
                                 w2))
                         | _ \<Rightarrow> (format_error (OtherException (loop_failure summaries)), w2))
                      else
                        (case summaries of
                           JArr [] \<Rightarrow>
                            (format_error (OtherException ''list index out of range''), w2)
                         | JArr (first # _) \<Rightarrow>
                            (let summary = as_day X first;
                                 gt = get_or \<lparr>gt_text = None, gt_total_seconds = None\<rparr>
                                        (ds_grand_total summary)
                             in (VDict
                                  ([(''date'',
                                       VStr (get_or (isoformat X start)
                                              (r_date (get_or \<lparr>r_date = None\<rparr> (ds_range summary))))),
                                    (''total_time'', VStr (get_or ''0 mins'' (gt_text gt))),
                                    (''total_seconds'', VNum (get_or 0 (gt_total_seconds gt))),
                                    (''projects'',
                                       VList (map item4 (take 10 (get_or [] (ds_projects summary))))),
                                    (''languages'',
                                       VList (map item3 (take 10 (get_or [] (ds_languages summary))))),
                                    (''editors'',
                                       VList (map item3 (take 5 (get_or [] (ds_editors summary))))),
                                    (''categories'',
                                       VList (map item3 (take 5 (get_or [] (ds_categories summary)))))]
                                   @ project_filter project),
                                 w2))
                         | _ \<Rightarrow> (format_error (OtherException (index_failure summaries)), w2))))))"

section \<open>Notions used to state the properties\<close>

text \<open>
  The dates a call of \<^verbatim>\<open>get_summary\<close> works with:
  \<^verbatim>\<open>parse_date(start_date) or yesterday\<close> and \<^verbatim>\<open>parse_date(end_date) or today\<close>.
\<close>

definition start_day :: "sys \<Rightarrow> string option \<Rightarrow> date" where
  "start_day X start_date = get_or (today X - 1) (parse_date X start_date)"

definition end_day :: "sys \<Rightarrow> string option \<Rightarrow> date" where
  "end_day X end_date = get_or (today X) (parse_date X end_date)"

text \<open>
  The specification's words for the multi-day aggregation. The name and the seconds of
  an upstream entry, the seconds accumulated for a name over a list of entries, the
  seconds of a day's grand total, and every entry of one kind over all the days.
\<close>

definition entry_name :: "entry \<Rightarrow> string" where
  "entry_name x = get_or ''Unknown'' (e_name x)"

definition entry_seconds :: "entry \<Rightarrow> rat" where
  "entry_seconds x = get_or 0 (e_total_seconds x)"

definition accumulated :: "entry list \<Rightarrow> string \<Rightarrow> rat" where
  "accumulated xs n = sum_list (map entry_seconds (filter (\<lambda>x. entry_name x = n) xs))"

definition day_seconds :: "day_summary \<Rightarrow> rat" where
  "day_seconds d =
     get_or 0 (gt_total_seconds
       (get_or \<lparr>gt_text = None, gt_total_seconds = None\<rparr> (ds_grand_total d)))"

definition projects_of :: "day_summary list \<Rightarrow> entry list" where
  "projects_of ds = concat (map (\<lambda>d. get_or [] (ds_projects d)) ds)"

definition languages_of :: "day_summary list \<Rightarrow> entry list" where
  "languages_of ds = concat (map (\<lambda>d. get_or [] (ds_languages d)) ds)"

definition editors_of :: "day_summary list \<Rightarrow> entry list" where
  "editors_of ds = concat (map (\<lambda>d. get_or [] (ds_editors d)) ds)"

definition categories_of :: "day_summary list \<Rightarrow> entry list" where
  "categories_of ds = concat (map (\<lambda>d. get_or [] (ds_categories d)) ds)"

text \<open>
  A returned breakdown entry for a name with its accumulated seconds, the percentage
  taken from the accumulated seconds and the total of the period.
\<close>

definition breakdown_item :: "rat \<Rightarrow> string \<times> rat \<Rightarrow> pyval" where
  "breakdown_item tot item =
     VDict [(''name'', VStr (fst item)),
            (''time'', VStr (format_seconds (snd item))),
            (''percent'', VNum (if 0 < tot then round1 (100 * snd item / tot) else 0)),
            (''total_seconds'', VNum (snd item))]"

text \<open>
  \<open>breakdown_of tot xs limit v\<close>: the value \<open>v\<close> is the breakdown of the entries \<open>xs\<close>. There
  is one item per name, holding the seconds accumulated for that name; the items are in
  descending order of those seconds; \<open>v\<close> lists the first \<open>limit\<close> of them.
\<close>

definition breakdown_of :: "rat \<Rightarrow> entry list \<Rightarrow> nat \<Rightarrow> pyval \<Rightarrow> bool" where
  "breakdown_of tot xs limit v \<longleftrightarrow>
     (\<exists>items.
        set items = {(n, accumulated xs n) | n. n \<in> entry_name ` set xs}
      \<and> distinct (map fst items)
      \<and> sorted_wrt (\<lambda>a b. snd b \<le> snd a) items
      \<and> v = VList (map (breakdown_item tot) (take limit items)))"

text \<open>The kinds of outcome of \<^verbatim>\<open>_request\<close>.\<close>

datatype outcome =
    Raises_AuthError | Raises_NotReadyError | Raises_RateLimitError | Raises_ApiError
  | Raises_other | Returns_body

fun outcome_of :: "error + json \<Rightarrow> outcome" where
  "outcome_of (Inl (WakaTimeAuthError _)) = Raises_AuthError"
| "outcome_of (Inl (WakaTimeNotReadyError _)) = Raises_NotReadyError"
| "outcome_of (Inl (WakaTimeRateLimitError _)) = Raises_RateLimitError"
| "outcome_of (Inl (WakaTimeError _)) = Raises_ApiError"
| "outcome_of (Inl (OtherException _)) = Raises_other"
| "outcome_of (Inr _) = Returns_body"

section \<open>Example surroundings\<close>

text \<open>
  A reading of well-formed payloads into the payload records, a calendar of four days
  around 15 January 2024 (ordinal 738900), and an upstream that answers every request
  with one fixed response.
\<close>

fun num_of :: "json \<Rightarrow> rat option" where
  "num_of (JInt i) = Some (of_int i)"
| "num_of (JFloat r) = Some r"
| "num_of _ = None"

fun str_of :: "json \<Rightarrow> string option" where
  "str_of (JStr s) = Some s"
| "str_of _ = None"

fun field :: "json \<Rightarrow> string \<Rightarrow> json option" where
  "field (JObj kvs) k = map_of kvs k"
| "field _ k = None"

definition read_entry :: "json \<Rightarrow> entry" where
  "read_entry j =
     \<lparr>e_name = Option.bind (field j ''name'') str_of,
      e_text = Option.bind (field j ''text'') str_of,
      e_percent = Option.bind (field j ''percent'') num_of,
      e_total_seconds = Option.bind (field j ''total_seconds'') num_of\<rparr>"

fun read_entries :: "json option \<Rightarrow> entry list option" where
  "read_entries (Some (JArr xs)) = Some (map read_entry xs)"
| "read_entries _ = None"

definition read_day :: "json \<Rightarrow> day_summary" where
  "read_day j =
     \<lparr>ds_grand_total =
        map_option (\<lambda>g. \<lparr>gt_text = Option.bind (field g ''text'') str_of,
                          gt_total_seconds = Option.bind (field g ''total_seconds'') num_of\<rparr>)
          (field j ''grand_total''),
      ds_range =
        map_option (\<lambda>r. \<lparr>r_date = Option.bind (field r ''date'') str_of\<rparr>) (field j ''range''),
      ds_projects = read_entries (field j ''projects''),
      ds_languages = read_entries (field j ''languages''),
      ds_editors = read_entries (field j ''editors''),
      ds_categories = read_entries (field j ''categories'')\<rparr>"

definition read_stats :: "json \<Rightarrow> stats" where
  "read_stats j =
     \<lparr>s_human_readable_range = Option.bind (field j ''human_readable_range'') str_of,
      s_human_readable_total = Option.bind (field j ''human_readable_total'') str_of,
      s_total_seconds = Option.bind (field j ''total_seconds'') num_of,
      s_human_readable_daily_average =
        Option.bind (field j ''human_readable_daily_average'') str_of,
      s_days_including_holidays = Option.bind (field j ''days_including_holidays'') num_of,
      s_days_minus_holidays = Option.bind (field j ''days_minus_holidays'') num_of,
      s_best_day =
        (case field j ''best_day'' of
           Some (JObj (kv # kvs)) \<Rightarrow>
             Some \<lparr>bd_date = Option.bind (field (JObj (kv # kvs)) ''date'') str_of,
                   bd_text = Option.bind (field (JObj (kv # kvs)) ''text'') str_of,
                   bd_total_seconds =
                     Option.bind (field (JObj (kv # kvs)) ''total_seconds'') num_of\<rparr>
         | _ \<Rightarrow> None),
      s_languages = read_entries (field j ''languages''),
      s_projects = read_entries (field j ''projects''),
      s_editors = read_entries (field j ''editors''),
      s_operating_systems = read_entries (field j ''operating_systems''),
      s_categories = read_entries (field j ''categories'')\<rparr>"

definition ex_fromisoformat :: "string \<Rightarrow> date option" where
  "ex_fromisoformat s =
     (if s = ''2024-01-05'' then Some 738890
      else if s = ''2024-01-10'' then Some 738895 else None)"

definition ex_isoformat :: "date \<Rightarrow> string" where
  "ex_isoformat d =
     (if d = 738890 then ''2024-01-05''
      else if d = 738895 then ''2024-01-10''
      else if d = 738899 then ''2024-01-14'' else ''2024-01-15'')"

definition ex_sys ::
  "(string \<Rightarrow> string option) \<Rightarrow> (http_request \<Rightarrow> string + response) \<Rightarrow> sys" where
  "ex_sys env net =
     \<lparr>environ = env, today = 738900, http = net, b64encode = (\<lambda>s. s),
      fromisoformat = ex_fromisoformat, isoformat = ex_isoformat,
      strftime_ymd = ex_isoformat, repr_json = (\<lambda>_. ''...''),
      as_day = read_day, as_stats = read_stats\<rparr>"

definition ex_env :: "string \<Rightarrow> string option" where
  "ex_env = (\<lambda>n. if n = ''WAKATIME_API_KEY'' then Some ''waka_key'' else None)"

definition no_env :: "string \<Rightarrow> string option" where
  "no_env = (\<lambda>n. None)"

definition ex_world :: world where
  "ex_world = \<lparr>client_slot = None, sent = []\<rparr>"

definition ex_client :: client where
  "ex_client =
     \<lparr>base_url = ''https://api.wakatime.com/api/v1'', timeout = 30, api_key = ''waka_key''\<rparr>"

definition ex_net :: "int \<Rightarrow> string + json \<Rightarrow> string \<Rightarrow> http_request \<Rightarrow> string + response" where
  "ex_net code body txt = (\<lambda>_. Inr \<lparr>status_code = code, json = body, resp_text = txt\<rparr>)"

definition ex_lang :: "string \<Rightarrow> string \<Rightarrow> rat \<Rightarrow> rat \<Rightarrow> json" where
  "ex_lang n t p s =
     JObj [(''name'', JStr n), (''text'', JStr t), (''percent'', JFloat p),
           (''total_seconds'', JFloat s)]"

definition ex_day1 :: json where
  "ex_day1 =
     JObj [(''grand_total'', JObj [(''text'', JStr ''2 hrs''), (''total_seconds'', JFloat 7200)]),
           (''range'', JObj [(''date'', JStr ''2024-01-05'')]),
           (''languages'', JArr [ex_lang ''Python'' ''1 hr'' (4567 / 100) 3600,
                                 ex_lang ''Go'' ''1 hr'' (5433 / 100) 3600])]"

definition ex_day2 :: json where
  "ex_day2 =
     JObj [(''grand_total'', JObj [(''text'', JStr ''30 mins''), (''total_seconds'', JFloat 1800)]),
           (''languages'', JArr [ex_lang ''Go'' ''30 mins'' 100 1800])]"

definition ex_summaries :: json where
  "ex_summaries = JObj [(''data'', JArr [ex_day1, ex_day2])]"

definition ex_stats :: json where
  "ex_stats =
     JObj [(''data'',
            JObj [(''human_readable_range'', JStr ''last 7 days''),
                  (''languages'',
                   JArr (map (\<lambda>i. ex_lang (''L'' @ str_nat i) ''1 hr'' (667 / 100) 3600)
                          [0..<15]))])]"

section \<open>Properties of \<open>format_seconds\<close>\<close>

lemma int_div_bounds:
  fixes a k :: int
  assumes "0 < k"
  shows "a div k * k \<le> a" and "a + 1 \<le> (a div k + 1) * k"
proof -
  have e: "a div k * k + a mod k = a" by simp
  have l: "0 \<le> a mod k" and u: "a mod k < k" using assms by simp_all
  from e l show "a div k * k \<le> a" by linarith
  have "(a div k + 1) * k = a div k * k + k" by (simp add: algebra_simps)
  with e u show "a + 1 \<le> (a div k + 1) * k" by linarith
qed

lemma floor_div_rat:
  assumes "0 < k"
  shows "\<lfloor>(x::rat) / of_int k\<rfloor> = \<lfloor>x\<rfloor> div k"
proof (rule floor_unique)
  have "(of_int (\<lfloor>x\<rfloor> div k * k) :: rat) \<le> of_int \<lfloor>x\<rfloor>"
    using int_div_bounds(1)[OF assms, of "\<lfloor>x\<rfloor>"] by (simp only: of_int_le_iff)
  also have "\<dots> \<le> x" by simp
  finally show "of_int (\<lfloor>x\<rfloor> div k) \<le> x / of_int k"
    using assms by (simp add: pos_le_divide_eq)
  have "(of_int (\<lfloor>x\<rfloor> + 1) :: rat) \<le> of_int ((\<lfloor>x\<rfloor> div k + 1) * k)"
    using int_div_bounds(2)[OF assms, of "\<lfloor>x\<rfloor>"] by (simp only: of_int_le_iff)
  moreover have "x < of_int (\<lfloor>x\<rfloor> + 1)" using floor_correct[of x] by simp
  ultimately have "x < of_int ((\<lfloor>x\<rfloor> div k + 1) * k)" by (rule less_le_trans[rotated])
  then show "x / of_int k < of_int (\<lfloor>x\<rfloor> div k) + 1"
    using assms by (simp add: pos_divide_less_eq)
qed

lemma int_div_less_iff:
  fixes a k c :: int
  assumes "0 < k"
  shows "a div k < c \<longleftrightarrow> a < c * k"
proof
  assume "a div k < c"
  then have "a div k + 1 \<le> c" by simp
  then have "(a div k + 1) * k \<le> c * k" using assms by (simp add: mult_right_mono)
  with int_div_bounds(2)[OF assms, of a] show "a < c * k" by linarith
next
  assume less: "a < c * k"
  show "a div k < c"
  proof (rule ccontr)
    assume "\<not> a div k < c"
    then have "c \<le> a div k" by simp
    then have "c * k \<le> a div k * k" using assms by (simp add: mult_right_mono)
    with int_div_bounds(1)[OF assms, of a] less show False by linarith
  qed
qed

text \<open>The nested integer divisions of the code, flattened onto \<open>\<lfloor>n\<rfloor>\<close>.\<close>

lemma format_seconds_floor:
  "format_seconds n =
     (if n < 60 then str_int (py_int n) @ '' secs''
      else if \<lfloor>n\<rfloor> < 3600 then str_int (\<lfloor>n\<rfloor> div 60) @ '' mins''
      else if \<lfloor>n\<rfloor> < 86400 then
        (if \<lfloor>n\<rfloor> div 60 mod 60 = 0 then str_int (\<lfloor>n\<rfloor> div 3600) @ '' hrs''
         else str_int (\<lfloor>n\<rfloor> div 3600) @ '' hrs '' @ str_int (\<lfloor>n\<rfloor> div 60 mod 60) @ '' mins'')
      else
        (if \<lfloor>n\<rfloor> div 3600 mod 24 = 0 then str_int (\<lfloor>n\<rfloor> div 86400) @ '' days''
         else str_int (\<lfloor>n\<rfloor> div 86400) @ '' days '' @ str_int (\<lfloor>n\<rfloor> div 3600 mod 24) @ '' hrs''))"
proof -
  have m: "\<lfloor>n / 60\<rfloor> = \<lfloor>n\<rfloor> div 60" using floor_div_rat[of 60 n] by simp
  have hh: "\<lfloor>n\<rfloor> div 60 div 60 = \<lfloor>n\<rfloor> div 3600" by (simp add: div_mult2_eq[symmetric])
  have dd: "\<lfloor>n\<rfloor> div 3600 div 24 = \<lfloor>n\<rfloor> div 86400" by (simp add: div_mult2_eq[symmetric])
  have c1: "\<lfloor>n\<rfloor> div 60 < 60 \<longleftrightarrow> \<lfloor>n\<rfloor> < 3600"
    using int_div_less_iff[of 60 "\<lfloor>n\<rfloor>" 60] by simp
  have c2: "\<lfloor>n\<rfloor> div 3600 < 24 \<longleftrightarrow> \<lfloor>n\<rfloor> < 86400"
    using int_div_less_iff[of 3600 "\<lfloor>n\<rfloor>" 24] by simp
  show ?thesis
    unfolding format_seconds_def Let_def m hh dd c1 c2 by simp
qed

lemma format_seconds_60: "format_seconds 60 = ''1 mins''"
  by code_simp

lemma format_seconds_3600: "format_seconds 3600 = ''1 hrs''"
  by code_simp

lemma format_seconds_3661: "format_seconds 3661 = ''1 hrs 1 mins''"
  by code_simp

lemma format_seconds_86400: "format_seconds 86400 = ''1 days''"
  by code_simp

lemma format_seconds_90000: "format_seconds 90000 = ''1 days 1 hrs''"
  by code_simp

lemmas format_seconds_examples =
  format_seconds_60 format_seconds_3600 format_seconds_3661 format_seconds_86400
  format_seconds_90000

text \<open>
  C3. For every non-negative number of seconds \<open>n\<close>: below 60 the text is \<open>\<lfloor>n\<rfloor>\<close> secs; from
  60 and below 3600 it is \<open>\<lfloor>n/60\<rfloor>\<close> mins; from 3600 and below 86400 it is H hrs, followed by
  M mins exactly when M is not zero, with H = \<open>\<lfloor>n/3600\<rfloor>\<close> and M = \<open>\<lfloor>n/60\<rfloor> mod 60\<close>; from
  86400 on it is D days, followed by H hrs exactly when H is not zero, with D = \<open>\<lfloor>n/86400\<rfloor>\<close>
  and H = \<open>\<lfloor>n/3600\<rfloor> mod 24\<close>. Every unit is a floor, so no value is rounded up across a
  boundary; the five boundary examples of the specification are part of the statement.
\<close>

theorem format_seconds_units:
  assumes "0 \<le> n"
  shows "(n < 60 \<longrightarrow> format_seconds n = str_int \<lfloor>n\<rfloor> @ '' secs'')
    \<and> (60 \<le> n \<and> n < 3600 \<longrightarrow> format_seconds n = str_int \<lfloor>n / 60\<rfloor> @ '' mins'')
    \<and> (3600 \<le> n \<and> n < 86400 \<longrightarrow> format_seconds n =
          (if \<lfloor>n / 60\<rfloor> mod 60 = 0 then str_int \<lfloor>n / 3600\<rfloor> @ '' hrs''
           else str_int \<lfloor>n / 3600\<rfloor> @ '' hrs '' @ str_int (\<lfloor>n / 60\<rfloor> mod 60) @ '' mins''))
    \<and> (86400 \<le> n \<longrightarrow> format_seconds n =
          (if \<lfloor>n / 3600\<rfloor> mod 24 = 0 then str_int \<lfloor>n / 86400\<rfloor> @ '' days''
           else str_int \<lfloor>n / 86400\<rfloor> @ '' days '' @ str_int (\<lfloor>n / 3600\<rfloor> mod 24) @ '' hrs''))
    \<and> format_seconds 60 = ''1 mins'' \<and> format_seconds 3600 = ''1 hrs''
    \<and> format_seconds 3661 = ''1 hrs 1 mins'' \<and> format_seconds 86400 = ''1 days''
    \<and> format_seconds 90000 = ''1 days 1 hrs''"
proof -
  have m: "\<lfloor>n / 60\<rfloor> = \<lfloor>n\<rfloor> div 60" using floor_div_rat[of 60 n] by simp
  have h: "\<lfloor>n / 3600\<rfloor> = \<lfloor>n\<rfloor> div 3600" using floor_div_rat[of 3600 n] by simp
  have d: "\<lfloor>n / 86400\<rfloor> = \<lfloor>n\<rfloor> div 86400" using floor_div_rat[of 86400 n] by simp
  have f3600: "n < 3600 \<longleftrightarrow> \<lfloor>n\<rfloor> < 3600" using floor_less_iff[of n 3600] by simp
  have f86400: "n < 86400 \<longleftrightarrow> \<lfloor>n\<rfloor> < 86400" using floor_less_iff[of n 86400] by simp
  have a: "n < 60 \<longrightarrow> format_seconds n = str_int \<lfloor>n\<rfloor> @ '' secs''"
    using assms by (simp add: format_seconds_def py_int_def)
  have b: "60 \<le> n \<and> n < 3600 \<longrightarrow> format_seconds n = str_int \<lfloor>n / 60\<rfloor> @ '' mins''"
    unfolding format_seconds_floor m f3600 by simp
  have c: "3600 \<le> n \<and> n < 86400 \<longrightarrow> format_seconds n =
          (if \<lfloor>n / 60\<rfloor> mod 60 = 0 then str_int \<lfloor>n / 3600\<rfloor> @ '' hrs''
           else str_int \<lfloor>n / 3600\<rfloor> @ '' hrs '' @ str_int (\<lfloor>n / 60\<rfloor> mod 60) @ '' mins'')"
    unfolding format_seconds_floor m h f3600 f86400 by simp
  have e: "86400 \<le> n \<longrightarrow> format_seconds n =
          (if \<lfloor>n / 3600\<rfloor> mod 24 = 0 then str_int \<lfloor>n / 86400\<rfloor> @ '' days''
           else str_int \<lfloor>n / 86400\<rfloor> @ '' days '' @ str_int (\<lfloor>n / 3600\<rfloor> mod 24) @ '' hrs'')"
    unfolding format_seconds_floor m h d f3600 f86400 by simp
  show ?thesis by (intro conjI a b c e format_seconds_examples)
qed

theorem format_seconds_units_witness:
  "(0::rat) \<le> 7325 \<and> 3600 \<le> (7325::rat) \<and> (7325::rat) < 86400
    \<and> format_seconds 7325 = ''2 hrs 2 mins''"
proof -
  have h: "(0::rat) \<le> 7325" by simp
  have r: "3600 \<le> (7325::rat) \<and> (7325::rat) < 86400" by simp
  have f1: "\<lfloor>7325 / 60 :: rat\<rfloor> = 122" by code_simp
  have f2: "\<lfloor>7325 / 3600 :: rat\<rfloor> = 2" by code_simp
  have s: "str_int 2 = ''2''" by code_simp
  from format_seconds_units[OF h] r have "format_seconds 7325 =
          (if \<lfloor>7325 / 60 :: rat\<rfloor> mod 60 = 0 then str_int \<lfloor>7325 / 3600 :: rat\<rfloor> @ '' hrs''
           else str_int \<lfloor>7325 / 3600 :: rat\<rfloor> @ '' hrs '' @ str_int (\<lfloor>7325 / 60 :: rat\<rfloor> mod 60) @ '' mins'')"
    by blast
  then show ?thesis unfolding f1 f2 using s by simp
qed

section \<open>Constructing the client\<close>

lemma get_client_sent: "get_client X w = (r, w1) \<Longrightarrow> sent w1 = sent w"
  by (auto simp: get_client_def split: option.splits sum.splits)

lemma get_client_available:
  assumes "client_slot w \<noteq> None \<or> (\<exists>k. environ X ''WAKATIME_API_KEY'' = Some k \<and> k \<noteq> [])"
  shows "\<exists>c w1. get_client X w = (Inr c, w1)"
  using assms by (auto simp: get_client_def WakaTimeClient_init_def split: option.splits)

lemma get_client_unavailable:
  assumes "client_slot w = None"
    and "environ X ''WAKATIME_API_KEY'' = None \<or> environ X ''WAKATIME_API_KEY'' = Some []"
  shows "get_client X w = (Inl (WakaTimeAuthError auth_missing_message), w)"
  using assms by (auto simp: get_client_def WakaTimeClient_init_def)

text \<open>
  C5. With no key passed and none (or an empty one) in the environment, or with an empty
  key passed, the constructor raises the authentication error; with a non-empty key,
  passed or from the environment, it succeeds and stores that key. The constructor sends
  nothing: a tool called while no client can be built returns the authentication advisory
  and leaves the world, and so the list of requests sent, as it was.
\<close>

theorem client_construction:
  "((key = None \<and> (environ X ''WAKATIME_API_KEY'' = None \<or> environ X ''WAKATIME_API_KEY'' = Some [])
      \<or> key = Some [])
     \<longrightarrow> WakaTimeClient_init X key burl tmo = Inl (WakaTimeAuthError auth_missing_message))
   \<and> (k \<noteq> [] \<longrightarrow>
        WakaTimeClient_init X (Some k) burl tmo = Inr \<lparr>base_url = burl, timeout = tmo, api_key = k\<rparr>)
   \<and> (k \<noteq> [] \<and> environ X ''WAKATIME_API_KEY'' = Some k \<longrightarrow>
        WakaTimeClient_init X None burl tmo = Inr \<lparr>base_url = burl, timeout = tmo, api_key = k\<rparr>)
   \<and> (client_slot w = None
        \<and> (environ X ''WAKATIME_API_KEY'' = None \<or> environ X ''WAKATIME_API_KEY'' = Some [])
      \<longrightarrow> get_client X w = (Inl (WakaTimeAuthError auth_missing_message), w)
        \<and> get_summary X sd ed project w = (format_error (WakaTimeAuthError auth_missing_message), w)
        \<and> get_coding_stats X rng w = (format_error (WakaTimeAuthError auth_missing_message), w))"
proof -
  have a: "(key = None \<and> (environ X ''WAKATIME_API_KEY'' = None \<or> environ X ''WAKATIME_API_KEY'' = Some [])
      \<or> key = Some [])
     \<longrightarrow> WakaTimeClient_init X key burl tmo = Inl (WakaTimeAuthError auth_missing_message)"
    by (auto simp: WakaTimeClient_init_def)
  have b: "k \<noteq> [] \<longrightarrow>
        WakaTimeClient_init X (Some k) burl tmo = Inr \<lparr>base_url = burl, timeout = tmo, api_key = k\<rparr>"
    by (simp add: WakaTimeClient_init_def)
  have c: "k \<noteq> [] \<and> environ X ''WAKATIME_API_KEY'' = Some k \<longrightarrow>
        WakaTimeClient_init X None burl tmo = Inr \<lparr>base_url = burl, timeout = tmo, api_key = k\<rparr>"
    by (simp add: WakaTimeClient_init_def)
  have d: "client_slot w = None
        \<and> (environ X ''WAKATIME_API_KEY'' = None \<or> environ X ''WAKATIME_API_KEY'' = Some [])
      \<longrightarrow> get_client X w = (Inl (WakaTimeAuthError auth_missing_message), w)
        \<and> get_summary X sd ed project w = (format_error (WakaTimeAuthError auth_missing_message), w)
        \<and> get_coding_stats X rng w = (format_error (WakaTimeAuthError auth_missing_message), w)"
  proof
    assume h: "client_slot w = None
        \<and> (environ X ''WAKATIME_API_KEY'' = None \<or> environ X ''WAKATIME_API_KEY'' = Some [])"
    then have g: "get_client X w = (Inl (WakaTimeAuthError auth_missing_message), w)"
      by (simp add: get_client_unavailable)
    then show "get_client X w = (Inl (WakaTimeAuthError auth_missing_message), w)
        \<and> get_summary X sd ed project w = (format_error (WakaTimeAuthError auth_missing_message), w)
        \<and> get_coding_stats X rng w = (format_error (WakaTimeAuthError auth_missing_message), w)"
      by (simp add: get_summary_def get_coding_stats_def)
  qed
  from a b c d show ?thesis by (intro conjI)
qed

theorem client_construction_witness:
  "WakaTimeClient_init (ex_sys no_env (ex_net 200 (Inr (JObj [])) [])) None ''u'' 30
     = Inl (WakaTimeAuthError auth_missing_message)
   \<and> WakaTimeClient_init (ex_sys no_env (ex_net 200 (Inr (JObj [])) [])) (Some []) ''u'' 30
     = Inl (WakaTimeAuthError auth_missing_message)
   \<and> WakaTimeClient_init (ex_sys no_env (ex_net 200 (Inr (JObj [])) [])) (Some ''waka_key'') ''u'' 30
     = Inr \<lparr>base_url = ''u'', timeout = 30, api_key = ''waka_key''\<rparr>
   \<and> WakaTimeClient_init (ex_sys ex_env (ex_net 200 (Inr (JObj [])) [])) None ''u'' 30
     = Inr \<lparr>base_url = ''u'', timeout = 30, api_key = ''waka_key''\<rparr>
   \<and> get_summary (ex_sys no_env (ex_net 200 (Inr (JObj [])) [])) None None None ex_world
     = (format_error (WakaTimeAuthError auth_missing_message), ex_world)"
proof -
  let ?N = "ex_sys no_env (ex_net 200 (Inr (JObj [])) [])"
  let ?E = "ex_sys ex_env (ex_net 200 (Inr (JObj [])) [])"
  have n: "environ ?N ''WAKATIME_API_KEY'' = None" by (simp add: ex_sys_def no_env_def)
  have e: "environ ?E ''WAKATIME_API_KEY'' = Some ''waka_key''" by (simp add: ex_sys_def ex_env_def)
  have w: "client_slot ex_world = None" by (simp add: ex_world_def)
  have k: "''waka_key'' \<noteq> []" by simp
  note t1 = client_construction[where X="?N" and key=None and k="''waka_key''" and burl="''u''"
      and tmo=30 and w=ex_world and sd=None and ed=None and project=None and rng="[]"]
  note t2 = client_construction[where X="?N" and key="Some []" and k="''waka_key''" and burl="''u''"
      and tmo=30 and w=ex_world and sd=None and ed=None and project=None and rng="[]"]
  note t3 = client_construction[where X="?E" and key=None and k="''waka_key''" and burl="''u''"
      and tmo=30 and w=ex_world and sd=None and ed=None and project=None and rng="[]"]
  from t1 t2 t3 n e w k show ?thesis by blast
qed

section \<open>The status mapping of \<open>request\<close>\<close>

text \<open>
  C2, as the code has it. Let the upstream answer with response \<open>r\<close>. Status 401 raises
  the authentication error and 429 the rate-limit error, whatever the body. When the body
  is a JSON object: 202 raises the not-ready error, whose message holds the value found
  under data.percent_calculated, or 0 when the body has no data member; any other
  status from 400 on raises the generic error, whose message holds the status code and
  the error member of the body, or the body text when there is no such member. Every other
  status below 400, the 1xx and 3xx as well as the 2xx, returns the parsed body unchanged.
  For such bodies the kind of outcome is a function of the status alone: one outcome for
  every status, and never two.
\<close>

theorem request_status_mapping:
  assumes "http X \<lparr>http_method = meth, url = base_url self @ endpoint,
                    headers = get_auth_header X self, params = ps\<rparr> = Inr r"
  shows "(status_code r = 401 \<longrightarrow>
            fst (request X self meth endpoint ps w) = Inl (WakaTimeAuthError ''Invalid API key''))
       \<and> (status_code r = 429 \<longrightarrow>
            fst (request X self meth endpoint ps w) = Inl (WakaTimeRateLimitError rate_limit_message))
       \<and> (status_code r = 202 \<and> json r = Inr (JObj kvs) \<and> map_of kvs ''data'' = Some (JObj dkvs) \<longrightarrow>
            fst (request X self meth endpoint ps w) =
              Inl (WakaTimeNotReadyError
                    (''Stats are still being computed ('' @
                     py_str X (case map_of dkvs ''percent_calculated'' of
                                 None \<Rightarrow> JInt 0 | Some p \<Rightarrow> p) @
                     ''% complete). Try again in a few seconds.'')))
       \<and> (status_code r = 202 \<and> json r = Inr (JObj kvs) \<and> map_of kvs ''data'' = None \<longrightarrow>
            fst (request X self meth endpoint ps w) =
              Inl (WakaTimeNotReadyError
                    ''Stats are still being computed (0% complete). Try again in a few seconds.''))
       \<and> (400 \<le> status_code r \<and> status_code r \<noteq> 401 \<and> status_code r \<noteq> 429
            \<and> json r = Inr (JObj kvs) \<longrightarrow>
            fst (request X self meth endpoint ps w) =
              Inl (WakaTimeError
                    (''API error ('' @ str_int (status_code r) @ ''): '' @
                     py_str X (case map_of kvs ''error'' of
                                 None \<Rightarrow> JStr (resp_text r) | Some m \<Rightarrow> m))))
       \<and> (status_code r < 400 \<and> status_code r \<noteq> 202 \<and> json r = Inr body \<longrightarrow>
            fst (request X self meth endpoint ps w) = Inr body)
       \<and> (json r = Inr (JObj kvs)
            \<and> (map_of kvs ''data'' = None \<or> (\<exists>d. map_of kvs ''data'' = Some (JObj d))) \<longrightarrow>
            outcome_of (fst (request X self meth endpoint ps w)) =
              (if status_code r = 401 then Raises_AuthError
               else if status_code r = 202 then Raises_NotReadyError
               else if status_code r = 429 then Raises_RateLimitError
               else if 400 \<le> status_code r then Raises_ApiError
               else Returns_body))"
proof -
  have s0: "str_int 0 = ''0''" by code_simp
  show ?thesis
    using assms by (auto simp: request_def Let_def py_str_def s0)
qed

theorem request_status_mapping_witness:
  "fst (request (ex_sys ex_env (ex_net 401 (Inl ''no JSON'') ''Unauthorized'')) ex_client
          ''GET'' ''/users/current'' None ex_world)
     = Inl (WakaTimeAuthError ''Invalid API key'')
   \<and> fst (request (ex_sys ex_env (ex_net 429 (Inl ''no JSON'') ''Too many'')) ex_client
          ''GET'' ''/users/current'' None ex_world)
     = Inl (WakaTimeRateLimitError rate_limit_message)
   \<and> fst (request (ex_sys ex_env
               (ex_net 202 (Inr (JObj [(''data'', JObj [(''percent_calculated'', JInt 45)])])) []))
          ex_client ''GET'' ''/users/current/stats/last_7_days'' None ex_world)
     = Inl (WakaTimeNotReadyError
             ''Stats are still being computed (45% complete). Try again in a few seconds.'')
   \<and> fst (request (ex_sys ex_env (ex_net 404 (Inr (JObj [(''error'', JStr ''Not found.'')])) []))
          ex_client ''GET'' ''/users/current/goals'' None ex_world)
     = Inl (WakaTimeError ''API error (404): Not found.'')
   \<and> fst (request (ex_sys ex_env (ex_net 500 (Inr (JObj [])) ''oops''))
          ex_client ''GET'' ''/users/current/goals'' None ex_world)
     = Inl (WakaTimeError ''API error (500): oops'')
   \<and> fst (request (ex_sys ex_env (ex_net 200 (Inr ex_summaries) []))
          ex_client ''GET'' ''/users/current/summaries'' None ex_world)
     = Inr ex_summaries
   \<and> fst (request (ex_sys ex_env (ex_net 304 (Inr (JObj [])) []))
          ex_client ''GET'' ''/users/current/summaries'' None ex_world)
     = Inr (JObj [])"
proof -
  have h: "http (ex_sys ex_env (ex_net sc bd tx))
             \<lparr>http_method = m, url = base_url ex_client @ ep,
              headers = get_auth_header (ex_sys ex_env (ex_net sc bd tx)) ex_client,
              params = None\<rparr>
           = Inr \<lparr>status_code = sc, json = bd, resp_text = tx\<rparr>"
    for sc bd tx m ep
    by (simp add: ex_sys_def ex_net_def)
  have s: "str_int 45 = ''45''" "str_int 404 = ''404''" "str_int 500 = ''500''" by code_simp+
  have 1: "fst (request (ex_sys ex_env (ex_net 401 (Inl ''no JSON'') ''Unauthorized'')) ex_client
          ''GET'' ''/users/current'' None ex_world)
     = Inl (WakaTimeAuthError ''Invalid API key'')"
    using request_status_mapping[where X="ex_sys ex_env (ex_net 401 (Inl ''no JSON'') ''Unauthorized'')" and meth="''GET''" and self=ex_client
            and endpoint="''/users/current''" and ps=None and w=ex_world
            and r="\<lparr>status_code = 401, json = Inl ''no JSON'', resp_text = ''Unauthorized''\<rparr>", OF h] by simp
  have 2: "fst (request (ex_sys ex_env (ex_net 429 (Inl ''no JSON'') ''Too many'')) ex_client
          ''GET'' ''/users/current'' None ex_world)
     = Inl (WakaTimeRateLimitError rate_limit_message)"
    using request_status_mapping[where X="ex_sys ex_env (ex_net 429 (Inl ''no JSON'') ''Too many'')" and meth="''GET''" and self=ex_client
            and endpoint="''/users/current''" and ps=None and w=ex_world
            and r="\<lparr>status_code = 429, json = Inl ''no JSON'', resp_text = ''Too many''\<rparr>", OF h] by simp
  have 3: "fst (request (ex_sys ex_env
               (ex_net 202 (Inr (JObj [(''data'', JObj [(''percent_calculated'', JInt 45)])])) []))
          ex_client ''GET'' ''/users/current/stats/last_7_days'' None ex_world)
     = Inl (WakaTimeNotReadyError
             ''Stats are still being computed (45% complete). Try again in a few seconds.'')"
    using request_status_mapping[where X="ex_sys ex_env (ex_net 202 (Inr (JObj [(''data'', JObj [(''percent_calculated'', JInt 45)])])) [])" and meth="''GET''" and self=ex_client
            and endpoint="''/users/current/stats/last_7_days''" and ps=None and w=ex_world
            and r="\<lparr>status_code = 202, json = Inr (JObj [(''data'', JObj [(''percent_calculated'', JInt 45)])]), resp_text = []\<rparr>"
            and kvs="[(''data'', JObj [(''percent_calculated'', JInt 45)])]"
            and dkvs="[(''percent_calculated'', JInt 45)]", OF h]
    by (simp add: py_str_def s)
  have 4: "fst (request (ex_sys ex_env (ex_net 404 (Inr (JObj [(''error'', JStr ''Not found.'')])) []))
          ex_client ''GET'' ''/users/current/goals'' None ex_world)
     = Inl (WakaTimeError ''API error (404): Not found.'')"
    using request_status_mapping[where X="ex_sys ex_env (ex_net 404 (Inr (JObj [(''error'', JStr ''Not found.'')])) [])" and meth="''GET''" and self=ex_client
            and endpoint="''/users/current/goals''" and ps=None and w=ex_world
            and r="\<lparr>status_code = 404, json = Inr (JObj [(''error'', JStr ''Not found.'')]), resp_text = []\<rparr>"
            and kvs="[(''error'', JStr ''Not found.'')]", OF h]
    by (simp add: py_str_def s)
  have 5: "fst (request (ex_sys ex_env (ex_net 500 (Inr (JObj [])) ''oops''))
          ex_client ''GET'' ''/users/current/goals'' None ex_world)
     = Inl (WakaTimeError ''API error (500): oops'')"
    using request_status_mapping[where X="ex_sys ex_env (ex_net 500 (Inr (JObj [])) ''oops'')" and meth="''GET''" and self=ex_client
            and endpoint="''/users/current/goals''" and ps=None and w=ex_world
            and r="\<lparr>status_code = 500, json = Inr (JObj []), resp_text = ''oops''\<rparr>"
            and kvs="[]", OF h]
    by (simp add: py_str_def s)
  have 6: "fst (request (ex_sys ex_env (ex_net 200 (Inr ex_summaries) []))
          ex_client ''GET'' ''/users/current/summaries'' None ex_world)
     = Inr ex_summaries"
    using request_status_mapping[where X="ex_sys ex_env (ex_net 200 (Inr ex_summaries) [])" and meth="''GET''" and self=ex_client
            and endpoint="''/users/current/summaries''" and ps=None and w=ex_world
            and r="\<lparr>status_code = 200, json = Inr ex_summaries, resp_text = []\<rparr>"
            and body="ex_summaries", OF h] by simp
  have 7: "fst (request (ex_sys ex_env (ex_net 304 (Inr (JObj [])) []))
          ex_client ''GET'' ''/users/current/summaries'' None ex_world)
     = Inr (JObj [])"
    using request_status_mapping[where X="ex_sys ex_env (ex_net 304 (Inr (JObj [])) [])" and meth="''GET''" and self=ex_client
            and endpoint="''/users/current/summaries''" and ps=None and w=ex_world
            and r="\<lparr>status_code = 304, json = Inr (JObj []), resp_text = []\<rparr>"
            and body="JObj []", OF h] by simp
  from 1 2 3 4 5 6 7 show ?thesis by (intro conjI)
qed

text \<open>
  A gateway's HTML error page is not JSON: \<^verbatim>\<open>response.json()\<close> raises before the generic
  error is built, and what leaves \<open>request\<close> is the decoder's exception, not the generic
  error with the status code. The same happens to a 200 whose body is not JSON.
\<close>

theorem request_status_mapping_counterexample:
  "fst (request (ex_sys ex_env
          (ex_net 502 (Inl ''Expecting value: line 1 column 1 (char 0)'')
                  ''<html>502 Bad Gateway</html>''))
        ex_client ''GET'' ''/users/current/summaries'' None ex_world)
     = Inl (OtherException ''Expecting value: line 1 column 1 (char 0)'')
   \<and> fst (request (ex_sys ex_env
          (ex_net 200 (Inl ''Expecting value: line 1 column 1 (char 0)'') ''<html>ok</html>''))
        ex_client ''GET'' ''/users/current/summaries'' None ex_world)
     = Inl (OtherException ''Expecting value: line 1 column 1 (char 0)'')"
  by (simp add: request_def ex_sys_def ex_net_def Let_def)

end
